theory Spec2Isabelle
  imports Main "HOL-Library.Word" "HOL-Library.AList"
begin

section \<open>The scan callback bridge of go-yara (rules_callback.go)\<close>

text \<open>
  The Go file sits between the YARA engine (C) and caller-supplied callback
  objects. The embedding below follows the file top to bottom. What C and the
  Go runtime do behind the file's back is made explicit:
  \<^item> C pointers and \<open>unsafe.Pointer\<close> values are addresses (\<open>nat\<close>), \<open>0\<close> is NULL;
  \<^item> the C heap is a map from the address of a live block to its bytes, with a
    log of the calls of \<open>C.free\<close>;
  \<^item> a callback object is a state together with the methods its dynamic type
    has; a type assertion to one of the five interfaces succeeds when the method
    is there;
  \<^item> the methods of the callback object are the caller's code: each call the
    dispatcher makes is written to a trace, with the values the call returned.
\<close>

subsection \<open>Values that cross the boundary\<close>

type_synonym ptr = nat
type_synonym byte = "8 word"
type_synonym c_int = "32 word"

text \<open>A Go \<open>error\<close>; the nil error is \<open>None\<close> of \<open>error option\<close>.\<close>

datatype error = Error string

text \<open>
  The engine's constants, with the values its header \<open>yara.h\<close> gives them (the
  header is the engine's, not this package's). The dispatcher only compares a
  message code against the five message constants, which are distinct (Go does
  not compile a switch with two equal constant cases), and only returns the
  three verdict constants.
\<close>

definition CALLBACK_MSG_RULE_MATCHING :: c_int where
  "CALLBACK_MSG_RULE_MATCHING = 1"

definition CALLBACK_MSG_RULE_NOT_MATCHING :: c_int where
  "CALLBACK_MSG_RULE_NOT_MATCHING = 2"

definition CALLBACK_MSG_SCAN_FINISHED :: c_int where
  "CALLBACK_MSG_SCAN_FINISHED = 3"

definition CALLBACK_MSG_IMPORT_MODULE :: c_int where
  "CALLBACK_MSG_IMPORT_MODULE = 4"

definition CALLBACK_MSG_MODULE_IMPORTED :: c_int where
  "CALLBACK_MSG_MODULE_IMPORTED = 5"

definition CALLBACK_CONTINUE :: c_int where
  "CALLBACK_CONTINUE = 0"

definition CALLBACK_ABORT :: c_int where
  "CALLBACK_ABORT = 1"

definition CALLBACK_ERROR :: c_int where
  "CALLBACK_ERROR = 2"

text \<open>
  The handles given to the callback methods: each is a Go struct holding one C
  pointer (\<open>&ScanContext{cptr: ctx}\<close>, \<open>&Rule{r}\<close>, \<open>&Object{obj}\<close>).
\<close>

datatype ScanContext = ScanContextAt ptr
datatype Rule = RuleAt ptr
datatype Object = ObjectAt ptr

text \<open>
  The engine's \<open>YR_MODULE_IMPORT\<close> structure: the name of the module asked for, and
  the two fields the dispatcher writes the answer into.
\<close>

record YR_MODULE_IMPORT =
  mi_module_name :: string
  mi_module_data :: ptr
  mi_module_data_size :: nat

subsection \<open>The C heap\<close>

record c_heap =
  blocks :: "ptr \<rightharpoonup> byte list"
  freed :: "ptr list"

text \<open>
  \<open>C.calloc(nmemb, size)\<close>: the address \<open>p\<close> is the allocator's choice, NULL when it
  has no memory; a block that was allocated is zero-filled.
\<close>

definition C_calloc :: "ptr \<Rightarrow> nat \<Rightarrow> nat \<Rightarrow> c_heap \<Rightarrow> c_heap" where
  "C_calloc p nmemb sz h =
     (if p = 0 then h else h\<lparr>blocks := (blocks h)(p \<mapsto> replicate (nmemb * sz) 0)\<rparr>)"

text \<open>\<open>C.free(p)\<close>: the block at \<open>p\<close> is gone, and the call is logged.\<close>

definition C_free :: "ptr \<Rightarrow> c_heap \<Rightarrow> c_heap" where
  "C_free p h = h\<lparr>blocks := (blocks h)(p := None), freed := freed h @ [p]\<rparr>"

text \<open>
  Go's builtin \<open>copy(dst, src)\<close>: the first \<open>min(len(dst), len(src))\<close> elements of
  \<open>dst\<close> are overwritten.
\<close>

definition go_copy :: "'a list \<Rightarrow> 'a list \<Rightarrow> 'a list" where
  "go_copy dst src = (let n = min (length dst) (length src) in take n src @ drop n dst)"

subsection \<open>Callback objects\<close>

text \<open>
  \<open>ScanCallback\<close> is the empty interface. The value stored in it has a state
  \<open>'st\<close> (what its methods read and change) and, for each of the five interfaces
  \<open>ScanCallbackMatch\<close>, \<open>ScanCallbackNoMatch\<close>, \<open>ScanCallbackFinished\<close>,
  \<open>ScanCallbackModuleImport\<close> and \<open>ScanCallbackModuleImportFinished\<close>, either
  the method that interface asks for or nothing. The type assertion
  \<open>cbc.ScanCallback.(ScanCallbackMatch)\<close> is the lookup of that field.
\<close>

record 'st ScanCallback =
  state :: 'st
  asScanCallbackMatch ::
    "(ScanContext \<Rightarrow> Rule \<Rightarrow> 'st \<Rightarrow> 'st \<times> bool \<times> error option) option"
  asScanCallbackNoMatch ::
    "(ScanContext \<Rightarrow> Rule \<Rightarrow> 'st \<Rightarrow> 'st \<times> bool \<times> error option) option"
  asScanCallbackFinished ::
    "(ScanContext \<Rightarrow> 'st \<Rightarrow> 'st \<times> bool \<times> error option) option"
  asScanCallbackModuleImport ::
    "(ScanContext \<Rightarrow> string \<Rightarrow> 'st \<Rightarrow> 'st \<times> byte list \<times> bool \<times> error option) option"
  asScanCallbackModuleImportFinished ::
    "(ScanContext \<Rightarrow> Object \<Rightarrow> 'st \<Rightarrow> 'st \<times> bool \<times> error option) option"

text \<open>One call of a callback method, as the dispatcher makes it.\<close>

datatype method_call =
    Call_RuleMatching ScanContext Rule
  | Call_RuleNotMatching ScanContext Rule
  | Call_ScanFinished ScanContext
  | Call_ImportModule ScanContext string
  | Call_ModuleImported ScanContext Object

type_synonym invocation = "method_call \<times> bool \<times> error option"

subsection \<open>scanCallbackContainer\<close>

record 'st scanCallbackContainer =
  ScanCallback :: "'st ScanCallback"
  cdata :: "ptr list"

text \<open>
  \<open>runtime.SetFinalizer\<close> asks the garbage collector to call \<open>finalize\<close> when the
  container is unreachable; it changes none of the data modelled here.
\<close>

definition makeScanCallbackContainer :: "'st ScanCallback \<Rightarrow> 'st scanCallbackContainer" where
  "makeScanCallbackContainer sc = \<lparr>ScanCallback = sc, cdata = []\<rparr>"

definition addCPointer :: "ptr \<Rightarrow> 'st scanCallbackContainer \<Rightarrow> 'st scanCallbackContainer" where
  "addCPointer p c = c\<lparr>cdata := cdata c @ [p]\<rparr>"

text \<open>The loop of \<open>finalize\<close>: \<open>for _, p := range c.cdata { C.free(p) }\<close>.\<close>

fun free_each :: "ptr list \<Rightarrow> c_heap \<Rightarrow> c_heap" where
  "free_each [] h = h"
| "free_each (p # ps) h = free_each ps (C_free p h)"

definition finalize :: "'st scanCallbackContainer \<Rightarrow> c_heap \<Rightarrow> 'st scanCallbackContainer \<times> c_heap" where
  "finalize c h = (c\<lparr>cdata := []\<rparr>, free_each (cdata c) h)"

subsection \<open>scanCallbackFunc\<close>

text \<open>
  \<open>callbackData\<close> is the package's table from the token the engine carries
  (\<open>userData\<close>) to the Go value registered for it. Its code is not in this file;
  \<open>callbackData.Get(userData)\<close> is the table's entry, which either is a
  \<open>*scanCallbackContainer\<close> or is any other value (nil included), for which the
  type assertion gives \<open>ok = false\<close>.
\<close>

datatype 'st go_value = Container "'st scanCallbackContainer" | NotAContainer

record 'st world =
  callbackData :: "ptr \<Rightarrow> 'st go_value"
  heap :: c_heap
  module_imports :: "ptr \<Rightarrow> YR_MODULE_IMPORT"

text \<open>
  Writing through a slice whose data pointer is NULL stops the program; it is the
  one way the dispatcher does not return.
\<close>

datatype fault = NilPointerDereference

record 'st switch_result =
  sw_abort :: bool
  sw_err :: "error option"
  sw_cbc :: "'st scanCallbackContainer"
  sw_heap :: c_heap
  sw_module_imports :: "ptr \<Rightarrow> YR_MODULE_IMPORT"
  sw_calls :: "invocation list"

text \<open>A method with the signature \<open>(bool, error)\<close> was called and has returned.\<close>

definition after_call ::
  "'st scanCallbackContainer \<Rightarrow> c_heap \<Rightarrow> (ptr \<Rightarrow> YR_MODULE_IMPORT) \<Rightarrow> method_call \<Rightarrow>
   'st \<times> bool \<times> error option \<Rightarrow> 'st switch_result" where
  "after_call cbc h mis call ret =
     (case ret of (st', abort, err) \<Rightarrow>
        \<lparr>sw_abort = abort, sw_err = err,
         sw_cbc = cbc\<lparr>ScanCallback := (ScanCallback cbc)\<lparr>state := st'\<rparr>\<rparr>,
         sw_heap = h, sw_module_imports = mis, sw_calls = [(call, abort, err)]\<rparr>)"

text \<open>No method was called: \<open>abort\<close> and \<open>err\<close> keep their zero values.\<close>

definition no_call ::
  "'st scanCallbackContainer \<Rightarrow> c_heap \<Rightarrow> (ptr \<Rightarrow> YR_MODULE_IMPORT) \<Rightarrow> 'st switch_result" where
  "no_call cbc h mis =
     \<lparr>sw_abort = False, sw_err = None, sw_cbc = cbc, sw_heap = h, sw_module_imports = mis,
      sw_calls = []\<rparr>"

text \<open>
  The case \<open>CALLBACK_MSG_IMPORT_MODULE\<close> once the type assertion has succeeded.
  \<open>cbuf\<close> is what \<open>C.calloc\<close> returns if it is called. The slice header of
  \<open>outbuf\<close> is overwritten with \<open>Data = cbuf\<close> and \<open>Len = len(buf)\<close>, so \<open>outbuf\<close> is
  the first \<open>len(buf)\<close> bytes of the new block and \<open>copy\<close> writes into the block.
  \<open>&outbuf[0]\<close> is the address \<open>cbuf\<close>.
\<close>

definition import_module ::
  "ptr \<Rightarrow> ScanContext \<Rightarrow> ptr \<Rightarrow> 'st scanCallbackContainer \<Rightarrow> c_heap \<Rightarrow>
   (ptr \<Rightarrow> YR_MODULE_IMPORT) \<Rightarrow>
   (ScanContext \<Rightarrow> string \<Rightarrow> 'st \<Rightarrow> 'st \<times> byte list \<times> bool \<times> error option) \<Rightarrow>
   fault + 'st switch_result" where
  "import_module cbuf s messageData cbc h mis c =
     (let mi = mis messageData in
      case c s (mi_module_name mi) (state (ScanCallback cbc)) of (st', buf, abort, err) \<Rightarrow>
        let cbc1 = cbc\<lparr>ScanCallback := (ScanCallback cbc)\<lparr>state := st'\<rparr>\<rparr>;
            calls = [(Call_ImportModule s (mi_module_name mi), abort, err)]
        in
        if length buf = 0 then
          Inr \<lparr>sw_abort = abort, sw_err = err, sw_cbc = cbc1, sw_heap = h,
               sw_module_imports = mis, sw_calls = calls\<rparr>
        else
          let h1 = C_calloc cbuf 1 (length buf) h in
          if cbuf = 0 then Inl NilPointerDereference
          else
            (case blocks h1 cbuf of
               None \<Rightarrow> Inl NilPointerDereference
             | Some block \<Rightarrow>
                 let outbuf = go_copy (take (length buf) block) buf;
                     h2 = h1\<lparr>blocks := (blocks h1)(cbuf \<mapsto> outbuf @ drop (length buf) block)\<rparr>;
                     mis1 = mis(messageData :=
                              mi\<lparr>mi_module_data := cbuf, mi_module_data_size := length outbuf\<rparr>)
                 in Inr \<lparr>sw_abort = abort, sw_err = err, sw_cbc = addCPointer cbuf cbc1,
                         sw_heap = h2, sw_module_imports = mis1, sw_calls = calls\<rparr>))"

text \<open>The \<open>switch message\<close> statement.\<close>

definition scanCallbackFunc_switch ::
  "ptr \<Rightarrow> ScanContext \<Rightarrow> c_int \<Rightarrow> ptr \<Rightarrow> 'st scanCallbackContainer \<Rightarrow> c_heap \<Rightarrow>
   (ptr \<Rightarrow> YR_MODULE_IMPORT) \<Rightarrow> fault + 'st switch_result" where
  "scanCallbackFunc_switch cbuf s message messageData cbc h mis =
     (if message = CALLBACK_MSG_RULE_MATCHING then
        (case asScanCallbackMatch (ScanCallback cbc) of
           Some c \<Rightarrow>
             Inr (after_call cbc h mis (Call_RuleMatching s (RuleAt messageData))
                    (c s (RuleAt messageData) (state (ScanCallback cbc))))
         | None \<Rightarrow> Inr (no_call cbc h mis))
      else if message = CALLBACK_MSG_RULE_NOT_MATCHING then
        (case asScanCallbackNoMatch (ScanCallback cbc) of
           Some c \<Rightarrow>
             Inr (after_call cbc h mis (Call_RuleNotMatching s (RuleAt messageData))
                    (c s (RuleAt messageData) (state (ScanCallback cbc))))
         | None \<Rightarrow> Inr (no_call cbc h mis))
      else if message = CALLBACK_MSG_SCAN_FINISHED then
        (case asScanCallbackFinished (ScanCallback cbc) of
           Some c \<Rightarrow>
             Inr (after_call cbc h mis (Call_ScanFinished s)
                    (c s (state (ScanCallback cbc))))
         | None \<Rightarrow> Inr (no_call cbc h mis))
      else if message = CALLBACK_MSG_IMPORT_MODULE then
        (case asScanCallbackModuleImport (ScanCallback cbc) of
           Some c \<Rightarrow> import_module cbuf s messageData cbc h mis c
         | None \<Rightarrow> Inr (no_call cbc h mis))
      else if message = CALLBACK_MSG_MODULE_IMPORTED then
        (case asScanCallbackModuleImportFinished (ScanCallback cbc) of
           Some c \<Rightarrow>
             Inr (after_call cbc h mis (Call_ModuleImported s (ObjectAt messageData))
                    (c s (ObjectAt messageData) (state (ScanCallback cbc))))
         | None \<Rightarrow> Inr (no_call cbc h mis))
      else Inr (no_call cbc h mis))"

record 'st outcome =
  verdict :: c_int
  world_after :: "'st world"
  calls :: "invocation list"

text \<open>
  The exported function. The container is reached through a pointer, so what the
  switch did to it is written back to the table's entry.
\<close>

definition scanCallbackFunc ::
  "ptr \<Rightarrow> 'st world \<Rightarrow> ptr \<Rightarrow> c_int \<Rightarrow> ptr \<Rightarrow> ptr \<Rightarrow> fault + 'st outcome" where
  "scanCallbackFunc cbuf w ctx message messageData userData =
     (let s = ScanContextAt ctx in
      case callbackData w userData of
        NotAContainer \<Rightarrow> Inr \<lparr>verdict = CALLBACK_ERROR, world_after = w, calls = []\<rparr>
      | Container cbc \<Rightarrow>
          (case scanCallbackFunc_switch cbuf s message messageData cbc (heap w)
                  (module_imports w) of
             Inl f \<Rightarrow> Inl f
           | Inr r \<Rightarrow>
               Inr \<lparr>verdict =
                      (if sw_err r \<noteq> None then CALLBACK_ERROR
                       else if sw_abort r then CALLBACK_ABORT
                       else CALLBACK_CONTINUE),
                    world_after =
                      \<lparr>callbackData = (callbackData w)(userData := Container (sw_cbc r)),
                       heap = sw_heap r, module_imports = sw_module_imports r\<rparr>,
                    calls = sw_calls r\<rparr>))"

text \<open>
  What an observer of the world sees of the buffers tracked for a token: the
  \<open>cdata\<close> of the container registered for it.
\<close>

definition tracked_buffers :: "'st world \<Rightarrow> ptr \<Rightarrow> ptr list" where
  "tracked_buffers w userData =
     (case callbackData w userData of Container cbc \<Rightarrow> cdata cbc | NotAContainer \<Rightarrow> [])"

subsection \<open>MatchRules\<close>

text \<open>
  A value of a rule's metadata, as Go sees it in the \<open>interface{}\<close> of the map
  \<open>r.Metas()\<close> returns: the dynamic types the file tells apart are \<open>int\<close> and
  everything else. Go's \<open>int\<close> is taken with 64 bits, as on the 64-bit platforms
  (the engine's own metadata integers have 64 bits too); \<open>int32\<close> has 32
  everywhere.
\<close>

datatype meta_value =
    GoInt "64 word"
  | GoInt32 "32 word"
  | GoString string
  | GoBool bool
  | GoNil

text \<open>The number an integer metadata value stands for, read as Go does (signed).\<close>

fun meta_int :: "meta_value \<Rightarrow> int option" where
  "meta_int (GoInt i) = Some (sint i)"
| "meta_int (GoInt32 i) = Some (sint i)"
| "meta_int (GoString v) = None"
| "meta_int (GoBool v) = None"
| "meta_int GoNil = None"

text \<open>
  A Go map is an association list read with \<open>map_of\<close> and written with
  \<open>AList.update\<close>; the order of the list stands for the order in which \<open>range\<close>
  visits the keys, which Go does not fix.
\<close>

type_synonym metas = "(string \<times> meta_value) list"

text \<open>
  \<open>MatchString\<close> (one matched string of a rule) is declared in another file of the
  package; \<open>RuleMatching\<close> only passes the list of them on.
\<close>

typedecl MatchString

record MatchRule =
  Rule :: string
  Namespace :: string
  Tags :: "string list"
  Meta :: metas
  Strings :: "MatchString list"

type_synonym MatchRules = "MatchRule list"

text \<open>
  The methods of \<open>Rule\<close> that \<open>RuleMatching\<close> calls (\<open>Identifier\<close>, \<open>Namespace\<close>,
  \<open>Tags\<close>, \<open>Metas\<close>, \<open>getMatchStrings\<close>) read the engine's memory and are defined in
  another file of the package; they are parameters here.
\<close>

record rule_accessors =
  r_Identifier :: "Rule \<Rightarrow> string"
  r_Namespace :: "Rule \<Rightarrow> string"
  r_Tags :: "Rule \<Rightarrow> string list"
  r_Metas :: "Rule \<Rightarrow> metas"
  r_getMatchStrings :: "Rule \<Rightarrow> ScanContext \<Rightarrow> MatchString list"

text \<open>
  The loop \<open>for s := range metas\<close>: where \<open>metas[s]\<close> holds an \<open>int\<close>, it is replaced
  by \<open>int32(i)\<close>. The conversion keeps the low 32 bits (\<open>scast\<close>).
\<close>

fun convert_ints :: "string list \<Rightarrow> metas \<Rightarrow> metas" where
  "convert_ints [] metas = metas"
| "convert_ints (s # ss) metas =
     convert_ints ss
       (case map_of metas s of
          Some (GoInt i) \<Rightarrow> AList.update s (GoInt32 (scast i)) metas
        | _ \<Rightarrow> metas)"

text \<open>The named results \<open>abort\<close> and \<open>err\<close> are never assigned: \<open>false\<close> and \<open>nil\<close>.\<close>

definition RuleMatching ::
  "rule_accessors \<Rightarrow> ScanContext \<Rightarrow> Rule \<Rightarrow> MatchRules \<Rightarrow> MatchRules \<times> bool \<times> error option" where
  "RuleMatching acc sc r mr =
     (let metas = r_Metas acc r;
          metas = convert_ints (map fst metas) metas
      in (mr @ [\<lparr>Rule = r_Identifier acc r, Namespace = r_Namespace acc r,
                 Tags = r_Tags acc r, Meta = metas,
                 Strings = r_getMatchStrings acc r sc\<rparr>],
          False, None))"

text \<open>
  A \<open>*MatchRules\<close> as a callback object: \<open>RuleMatching\<close> is the only method the type
  has.
\<close>

definition MatchRules_callback :: "rule_accessors \<Rightarrow> MatchRules \<Rightarrow> MatchRules ScanCallback" where
  "MatchRules_callback acc mr =
     \<lparr>state = mr,
      asScanCallbackMatch = Some (RuleMatching acc),
      asScanCallbackNoMatch = None,
      asScanCallbackFinished = None,
      asScanCallbackModuleImport = None,
      asScanCallbackModuleImportFinished = None\<rparr>"

text \<open>
  What the loop of \<open>RuleMatching\<close> leaves in the place of one metadata value: an
  \<open>int\<close> has become an \<open>int32\<close>, any other value is as it was. The loop is
  \<open>convert_ints\<close>; that it acts on every value in this way is proved below.
\<close>

fun int_as_int32 :: "meta_value \<Rightarrow> meta_value" where
  "int_as_int32 (GoInt i) = GoInt32 (scast i)"
| "int_as_int32 v = v"

text \<open>
  The engine reports the matching rules one after the other; \<open>RuleMatching\<close> is
  called for each in that order, on the same \<open>MatchRules\<close>.
\<close>

fun RuleMatching_each ::
  "rule_accessors \<Rightarrow> ScanContext \<Rightarrow> Rule list \<Rightarrow> MatchRules \<Rightarrow> MatchRules" where
  "RuleMatching_each acc sc [] mr = mr"
| "RuleMatching_each acc sc (r # rs) mr =
     RuleMatching_each acc sc rs (fst (RuleMatching acc sc r mr))"

subsection \<open>Concrete inputs\<close>

text \<open>
  A callback object that has all five methods; each counts the call in its state
  and returns the values it was built with.
\<close>

definition ex_callback :: "byte list \<Rightarrow> bool \<Rightarrow> error option \<Rightarrow> nat ScanCallback" where
  "ex_callback buf abort err =
     \<lparr>state = 0,
      asScanCallbackMatch = Some (\<lambda>s r n. (Suc n, abort, err)),
      asScanCallbackNoMatch = Some (\<lambda>s r n. (Suc n, abort, err)),
      asScanCallbackFinished = Some (\<lambda>s n. (Suc n, abort, err)),
      asScanCallbackModuleImport = Some (\<lambda>s name n. (Suc n, buf, abort, err)),
      asScanCallbackModuleImportFinished = Some (\<lambda>s obj n. (Suc n, abort, err))\<rparr>"

text \<open>A callback object with none of the methods.\<close>

definition ex_no_methods :: "nat ScanCallback" where
  "ex_no_methods =
     \<lparr>state = 0,
      asScanCallbackMatch = None,
      asScanCallbackNoMatch = None,
      asScanCallbackFinished = None,
      asScanCallbackModuleImport = None,
      asScanCallbackModuleImportFinished = None\<rparr>"

definition ex_heap :: c_heap where
  "ex_heap = \<lparr>blocks = Map.empty, freed = []\<rparr>"

definition ex_module_import :: YR_MODULE_IMPORT where
  "ex_module_import = \<lparr>mi_module_name = ''net'', mi_module_data = 0, mi_module_data_size = 0\<rparr>"

text \<open>
  A world in which the token 7 stands for a fresh container of the callback object
  \<open>sc\<close> and no other token is registered.
\<close>

definition ex_world :: "'st ScanCallback \<Rightarrow> 'st world" where
  "ex_world sc =
     \<lparr>callbackData = (\<lambda>t. if t = 7 then Container (makeScanCallbackContainer sc)
                           else NotAContainer),
      heap = ex_heap,
      module_imports = (\<lambda>a. ex_module_import)\<rparr>"

text \<open>
  A rule as in the scenario of the specification, with one metadata integer
  beyond the range of \<open>int32\<close>.
\<close>

definition ex_metas :: metas where
  "ex_metas = [(''score'', GoInt 80), (''size'', GoInt 2147483648),
               (''author'', GoString ''me''), (''live'', GoBool True)]"

definition ex_accessors :: rule_accessors where
  "ex_accessors =
     \<lparr>r_Identifier = (\<lambda>r. ''suspicious''),
      r_Namespace = (\<lambda>r. ''default''),
      r_Tags = (\<lambda>r. [''malware'']),
      r_Metas = (\<lambda>r. ex_metas),
      r_getMatchStrings = (\<lambda>r sc. [])\<rparr>"

text \<open>The record \<open>RuleMatching\<close> appends for that rule to an empty \<open>MatchRules\<close>.\<close>

definition ex_record :: MatchRule where
  "ex_record = last (fst (RuleMatching ex_accessors (ScanContextAt 1) (RuleAt 2) []))"

text \<open>
  A module-import event for a callback object whose \<open>ImportModule\<close> returns one
  byte of payload together with an error; \<open>C.calloc\<close> returns the address 4096.
\<close>

definition ex_import_error :: "nat ScanCallback" where
  "ex_import_error = ex_callback [65] False (Some (Error ''no such module''))"

definition ex_import_error_run :: "fault + nat outcome" where
  "ex_import_error_run =
     scanCallbackFunc 4096 (ex_world ex_import_error) 1 CALLBACK_MSG_IMPORT_MODULE 2 7"

text \<open>
  A module-import event for a callback object whose \<open>ImportModule\<close> returns one
  byte of payload with \<open>(false, nil)\<close>, at a moment when \<open>C.calloc\<close> has no memory
  and returns NULL.
\<close>

definition ex_import_ok :: "nat ScanCallback" where
  "ex_import_ok = ex_callback [65] False None"

definition ex_import_no_memory_run :: "fault + nat outcome" where
  "ex_import_no_memory_run =
     scanCallbackFunc 0 (ex_world ex_import_ok) 1 CALLBACK_MSG_IMPORT_MODULE 2 7"

text \<open>A container that tracks two buffers, and a heap in which both are live.\<close>

definition ex_container :: "nat scanCallbackContainer" where
  "ex_container = addCPointer 8192 (addCPointer 4096 (makeScanCallbackContainer ex_no_methods))"

definition ex_live_heap :: c_heap where
  "ex_live_heap = \<lparr>blocks = [4096 \<mapsto> [1, 2], 8192 \<mapsto> [3]], freed = []\<rparr>"

section \<open>The dispatcher\<close>

subsection \<open>What the switch does, case by case\<close>

lemmas msg_defs =
  CALLBACK_MSG_RULE_MATCHING_def CALLBACK_MSG_RULE_NOT_MATCHING_def
  CALLBACK_MSG_SCAN_FINISHED_def CALLBACK_MSG_IMPORT_MODULE_def
  CALLBACK_MSG_MODULE_IMPORTED_def

lemma world_write_back:
  "callbackData w userData = Container cbc \<Longrightarrow>
   \<lparr>callbackData = (callbackData w)(userData := Container cbc), heap = heap w,
    module_imports = module_imports w\<rparr> = w"
  by (simp add: fun_upd_idem)

lemma switch_other_message:
  assumes "message \<noteq> CALLBACK_MSG_RULE_MATCHING"
    and "message \<noteq> CALLBACK_MSG_RULE_NOT_MATCHING"
    and "message \<noteq> CALLBACK_MSG_SCAN_FINISHED"
    and "message \<noteq> CALLBACK_MSG_IMPORT_MODULE"
    and "message \<noteq> CALLBACK_MSG_MODULE_IMPORTED"
  shows "scanCallbackFunc_switch cbuf s message messageData cbc h mis = Inr (no_call cbc h mis)"
  using assms by (simp add: scanCallbackFunc_switch_def)

lemma switch_missing_capability:
  assumes "(message = CALLBACK_MSG_RULE_MATCHING \<and>
        asScanCallbackMatch (ScanCallback cbc) = None) \<or>
     (message = CALLBACK_MSG_RULE_NOT_MATCHING \<and>
        asScanCallbackNoMatch (ScanCallback cbc) = None) \<or>
     (message = CALLBACK_MSG_SCAN_FINISHED \<and>
        asScanCallbackFinished (ScanCallback cbc) = None) \<or>
     (message = CALLBACK_MSG_IMPORT_MODULE \<and>
        asScanCallbackModuleImport (ScanCallback cbc) = None) \<or>
     (message = CALLBACK_MSG_MODULE_IMPORTED \<and>
        asScanCallbackModuleImportFinished (ScanCallback cbc) = None)"
  shows "scanCallbackFunc_switch cbuf s message messageData cbc h mis = Inr (no_call cbc h mis)"
  using assms by (auto simp add: scanCallbackFunc_switch_def msg_defs)

lemma switch_rule_matching:
  "asScanCallbackMatch (ScanCallback cbc) = Some c \<Longrightarrow>
   scanCallbackFunc_switch cbuf s CALLBACK_MSG_RULE_MATCHING messageData cbc h mis =
     Inr (after_call cbc h mis (Call_RuleMatching s (RuleAt messageData))
            (c s (RuleAt messageData) (state (ScanCallback cbc))))"
  by (simp add: scanCallbackFunc_switch_def)

lemma switch_rule_not_matching:
  "asScanCallbackNoMatch (ScanCallback cbc) = Some c \<Longrightarrow>
   scanCallbackFunc_switch cbuf s CALLBACK_MSG_RULE_NOT_MATCHING messageData cbc h mis =
     Inr (after_call cbc h mis (Call_RuleNotMatching s (RuleAt messageData))
            (c s (RuleAt messageData) (state (ScanCallback cbc))))"
  by (simp add: scanCallbackFunc_switch_def msg_defs)

lemma switch_scan_finished:
  "asScanCallbackFinished (ScanCallback cbc) = Some c \<Longrightarrow>
   scanCallbackFunc_switch cbuf s CALLBACK_MSG_SCAN_FINISHED messageData cbc h mis =
     Inr (after_call cbc h mis (Call_ScanFinished s) (c s (state (ScanCallback cbc))))"
  by (simp add: scanCallbackFunc_switch_def msg_defs)

lemma switch_import:
  "asScanCallbackModuleImport (ScanCallback cbc) = Some c \<Longrightarrow>
   scanCallbackFunc_switch cbuf s CALLBACK_MSG_IMPORT_MODULE messageData cbc h mis =
     import_module cbuf s messageData cbc h mis c"
  by (simp add: scanCallbackFunc_switch_def msg_defs)

lemma switch_module_imported:
  "asScanCallbackModuleImportFinished (ScanCallback cbc) = Some c \<Longrightarrow>
   scanCallbackFunc_switch cbuf s CALLBACK_MSG_MODULE_IMPORTED messageData cbc h mis =
     Inr (after_call cbc h mis (Call_ModuleImported s (ObjectAt messageData))
            (c s (ObjectAt messageData) (state (ScanCallback cbc))))"
  by (simp add: scanCallbackFunc_switch_def msg_defs)

lemma after_call_result:
  "ret = (st', abort, err) \<Longrightarrow>
   sw_abort (after_call cbc h mis call ret) = abort \<and>
   sw_err (after_call cbc h mis call ret) = err \<and>
   map snd (sw_calls (after_call cbc h mis call ret)) = [(abort, err)]"
  by (simp add: after_call_def)

subsection \<open>The module-import case\<close>

lemma go_copy_same_length: "length dst = length src \<Longrightarrow> go_copy dst src = src"
  by (simp add: go_copy_def)

lemma import_module_empty:
  assumes "c s (mi_module_name (mis messageData)) (state (ScanCallback cbc)) =
             (st', [], abort, err)"
  shows "import_module cbuf s messageData cbc h mis c =
           Inr \<lparr>sw_abort = abort, sw_err = err,
                sw_cbc = cbc\<lparr>ScanCallback := (ScanCallback cbc)\<lparr>state := st'\<rparr>\<rparr>,
                sw_heap = h, sw_module_imports = mis,
                sw_calls = [(Call_ImportModule s (mi_module_name (mis messageData)), abort, err)]\<rparr>"
  using assms by (simp add: import_module_def)

lemma import_module_payload:
  assumes "c s (mi_module_name (mis messageData)) (state (ScanCallback cbc)) =
             (st', buf, abort, err)"
    and "buf \<noteq> []" and "cbuf \<noteq> 0"
  shows "import_module cbuf s messageData cbc h mis c =
           Inr \<lparr>sw_abort = abort, sw_err = err,
                sw_cbc = cbc\<lparr>ScanCallback := (ScanCallback cbc)\<lparr>state := st'\<rparr>,
                             cdata := cdata cbc @ [cbuf]\<rparr>,
                sw_heap = h\<lparr>blocks := (blocks h)(cbuf \<mapsto> buf)\<rparr>,
                sw_module_imports = mis(messageData :=
                   (mis messageData)\<lparr>mi_module_data := cbuf, mi_module_data_size := length buf\<rparr>),
                sw_calls = [(Call_ImportModule s (mi_module_name (mis messageData)), abort, err)]\<rparr>"
  using assms
  by (simp add: import_module_def Let_def C_calloc_def go_copy_same_length addCPointer_def)

text \<open>
  When \<open>C.calloc\<close> returns NULL for a payload that is not empty, the dispatcher
  does not return: \<open>copy\<close> writes through the null pointer.
\<close>

lemma import_module_fault:
  assumes "c s (mi_module_name (mis messageData)) (state (ScanCallback cbc)) =
             (st', buf, abort, err)"
    and "buf \<noteq> []"
  shows "import_module 0 s messageData cbc h mis c = Inl NilPointerDereference"
  using assms by (simp add: import_module_def)

lemma import_module_result:
  assumes "c s (mi_module_name (mis messageData)) (state (ScanCallback cbc)) =
             (st', buf, abort, err)"
    and "buf = [] \<or> cbuf \<noteq> 0"
  shows "\<exists>r. import_module cbuf s messageData cbc h mis c = Inr r \<and>
           sw_abort r = abort \<and> sw_err r = err \<and> map snd (sw_calls r) = [(abort, err)]"
proof (cases "buf = []")
  case True
  with assms(1) import_module_empty [where c = c and mis = mis and s = s]
  show ?thesis by simp
next
  case False
  with assms(2) have "cbuf \<noteq> 0" by simp
  from import_module_payload [where c = c and mis = mis, OF assms(1) False this]
  show ?thesis by simp
qed

lemma switch_invoked:
  assumes "(message = CALLBACK_MSG_RULE_MATCHING \<and>
       (\<exists>c st'. asScanCallbackMatch (ScanCallback cbc) = Some c \<and>
          c s (RuleAt messageData) (state (ScanCallback cbc)) = (st', abort, err))) \<or>
     (message = CALLBACK_MSG_RULE_NOT_MATCHING \<and>
       (\<exists>c st'. asScanCallbackNoMatch (ScanCallback cbc) = Some c \<and>
          c s (RuleAt messageData) (state (ScanCallback cbc)) = (st', abort, err))) \<or>
     (message = CALLBACK_MSG_SCAN_FINISHED \<and>
       (\<exists>c st'. asScanCallbackFinished (ScanCallback cbc) = Some c \<and>
          c s (state (ScanCallback cbc)) = (st', abort, err))) \<or>
     (message = CALLBACK_MSG_IMPORT_MODULE \<and>
       (\<exists>c st' buf. asScanCallbackModuleImport (ScanCallback cbc) = Some c \<and>
          c s (mi_module_name (mis messageData)) (state (ScanCallback cbc)) =
            (st', buf, abort, err) \<and>
          (buf = [] \<or> cbuf \<noteq> 0))) \<or>
     (message = CALLBACK_MSG_MODULE_IMPORTED \<and>
       (\<exists>c st'. asScanCallbackModuleImportFinished (ScanCallback cbc) = Some c \<and>
          c s (ObjectAt messageData) (state (ScanCallback cbc)) = (st', abort, err)))"
  shows "\<exists>r. scanCallbackFunc_switch cbuf s message messageData cbc h mis = Inr r \<and>
           sw_abort r = abort \<and> sw_err r = err \<and> map snd (sw_calls r) = [(abort, err)]"
proof -
  consider
    (matching) c st' where "message = CALLBACK_MSG_RULE_MATCHING"
      "asScanCallbackMatch (ScanCallback cbc) = Some c"
      "c s (RuleAt messageData) (state (ScanCallback cbc)) = (st', abort, err)"
  | (not_matching) c st' where "message = CALLBACK_MSG_RULE_NOT_MATCHING"
      "asScanCallbackNoMatch (ScanCallback cbc) = Some c"
      "c s (RuleAt messageData) (state (ScanCallback cbc)) = (st', abort, err)"
  | (finished) c st' where "message = CALLBACK_MSG_SCAN_FINISHED"
      "asScanCallbackFinished (ScanCallback cbc) = Some c"
      "c s (state (ScanCallback cbc)) = (st', abort, err)"
  | (import) c st' buf where "message = CALLBACK_MSG_IMPORT_MODULE"
      "asScanCallbackModuleImport (ScanCallback cbc) = Some c"
      "c s (mi_module_name (mis messageData)) (state (ScanCallback cbc)) = (st', buf, abort, err)"
      "buf = [] \<or> cbuf \<noteq> 0"
  | (imported) c st' where "message = CALLBACK_MSG_MODULE_IMPORTED"
      "asScanCallbackModuleImportFinished (ScanCallback cbc) = Some c"
      "c s (ObjectAt messageData) (state (ScanCallback cbc)) = (st', abort, err)"
    using assms
    by (elim disjE conjE exE)
      (rule that; (assumption | (rule disjI1, assumption) | (rule disjI2, assumption)))+
  then show ?thesis
  proof cases
    case matching
    from switch_rule_matching [OF matching(2)] after_call_result [OF matching(3)] matching(1)
    show ?thesis by simp
  next
    case not_matching
    from switch_rule_not_matching [OF not_matching(2)] after_call_result [OF not_matching(3)]
      not_matching(1)
    show ?thesis by simp
  next
    case finished
    from switch_scan_finished [OF finished(2)] after_call_result [OF finished(3)] finished(1)
    show ?thesis by simp
  next
    case import
    from switch_import [OF import(2)]
      import_module_result [where c = c and mis = mis, OF import(3) import(4)] import(1)
    show ?thesis by simp
  next
    case imported
    from switch_module_imported [OF imported(2)] after_call_result [OF imported(3)] imported(1)
    show ?thesis by simp
  qed
qed

subsection \<open>Events that reach no callback method\<close>

text \<open>
  C7. When the table's entry for the token is not a callback container, the
  dispatcher returns the engine's error code, calls no method of any callback
  object and leaves the table, the heap and the engine's structures as they were.
\<close>

theorem unresolved_token_gives_error:
  assumes "callbackData w userData = NotAContainer"
  shows "scanCallbackFunc cbuf w ctx message messageData userData =
           Inr \<lparr>verdict = CALLBACK_ERROR, world_after = w, calls = []\<rparr>"
  using assms by (simp add: scanCallbackFunc_def)

theorem unresolved_token_gives_error_witness:
  "callbackData (ex_world ex_no_methods) 8 = NotAContainer \<and>
   scanCallbackFunc 0 (ex_world ex_no_methods) 1 CALLBACK_MSG_RULE_MATCHING 2 8 =
     Inr \<lparr>verdict = CALLBACK_ERROR, world_after = ex_world ex_no_methods, calls = []\<rparr>"
proof -
  have unregistered: "callbackData (ex_world ex_no_methods) 8 = NotAContainer"
    by (simp add: ex_world_def)
  from unregistered unresolved_token_gives_error [OF unregistered] show ?thesis
    by simp
qed

text \<open>
  C10. When the token stands for a callback container and the message code is
  none of the five the switch names, the dispatcher calls no callback method,
  returns the engine's continue code and changes nothing.
\<close>

theorem other_message_continues:
  assumes "callbackData w userData = Container cbc"
    and "message \<noteq> CALLBACK_MSG_RULE_MATCHING"
    and "message \<noteq> CALLBACK_MSG_RULE_NOT_MATCHING"
    and "message \<noteq> CALLBACK_MSG_SCAN_FINISHED"
    and "message \<noteq> CALLBACK_MSG_IMPORT_MODULE"
    and "message \<noteq> CALLBACK_MSG_MODULE_IMPORTED"
  shows "scanCallbackFunc cbuf w ctx message messageData userData =
           Inr \<lparr>verdict = CALLBACK_CONTINUE, world_after = w, calls = []\<rparr>"
  using assms
  by (simp add: scanCallbackFunc_def switch_other_message no_call_def world_write_back)

theorem other_message_continues_witness:
  "callbackData (ex_world (ex_callback [65] True (Some (Error ''e'')))) 7 =
     Container (makeScanCallbackContainer (ex_callback [65] True (Some (Error ''e'')))) \<and>
   (6 :: c_int) \<noteq> CALLBACK_MSG_RULE_MATCHING \<and>
   (6 :: c_int) \<noteq> CALLBACK_MSG_RULE_NOT_MATCHING \<and>
   (6 :: c_int) \<noteq> CALLBACK_MSG_SCAN_FINISHED \<and>
   (6 :: c_int) \<noteq> CALLBACK_MSG_IMPORT_MODULE \<and>
   (6 :: c_int) \<noteq> CALLBACK_MSG_MODULE_IMPORTED \<and>
   scanCallbackFunc 0 (ex_world (ex_callback [65] True (Some (Error ''e'')))) 1 6 2 7 =
     Inr \<lparr>verdict = CALLBACK_CONTINUE,
          world_after = ex_world (ex_callback [65] True (Some (Error ''e''))), calls = []\<rparr>"
proof -
  have registered:
    "callbackData (ex_world (ex_callback [65] True (Some (Error ''e'')))) 7 =
       Container (makeScanCallbackContainer (ex_callback [65] True (Some (Error ''e''))))"
    by (simp add: ex_world_def)
  have other: "(6 :: c_int) \<noteq> CALLBACK_MSG_RULE_MATCHING"
    "(6 :: c_int) \<noteq> CALLBACK_MSG_RULE_NOT_MATCHING"
    "(6 :: c_int) \<noteq> CALLBACK_MSG_SCAN_FINISHED"
    "(6 :: c_int) \<noteq> CALLBACK_MSG_IMPORT_MODULE"
    "(6 :: c_int) \<noteq> CALLBACK_MSG_MODULE_IMPORTED"
    by (simp_all add: msg_defs)
  from registered other other_message_continues [OF registered other]
  show ?thesis by simp
qed

text \<open>
  C6. When the callback object registered for the token does not have the method
  that the event's kind asks for (for any of the five kinds), the dispatcher calls
  no callback method, returns the engine's continue code (\<open>abort\<close> and \<open>err\<close> are
  still \<open>false\<close> and \<open>nil\<close>) and changes registered.
\<close>

theorem missing_capability_continues:
  assumes "callbackData w userData = Container cbc"
    and "(message = CALLBACK_MSG_RULE_MATCHING \<and>
        asScanCallbackMatch (ScanCallback cbc) = None) \<or>
     (message = CALLBACK_MSG_RULE_NOT_MATCHING \<and>
        asScanCallbackNoMatch (ScanCallback cbc) = None) \<or>
     (message = CALLBACK_MSG_SCAN_FINISHED \<and>
        asScanCallbackFinished (ScanCallback cbc) = None) \<or>
     (message = CALLBACK_MSG_IMPORT_MODULE \<and>
        asScanCallbackModuleImport (ScanCallback cbc) = None) \<or>
     (message = CALLBACK_MSG_MODULE_IMPORTED \<and>
        asScanCallbackModuleImportFinished (ScanCallback cbc) = None)"
  shows "scanCallbackFunc cbuf w ctx message messageData userData =
           Inr \<lparr>verdict = CALLBACK_CONTINUE, world_after = w, calls = []\<rparr>"
  using assms(1) switch_missing_capability [OF assms(2)]
  by (simp add: scanCallbackFunc_def no_call_def world_write_back)

text \<open>
  The witness: a \<open>MatchRules\<close> has \<open>RuleMatching\<close> only, so a scan-finished event
  passes it by; an object with no methods is passed by on a module-import event.
\<close>

theorem missing_capability_continues_witness:
  "asScanCallbackFinished (MatchRules_callback ex_accessors []) = None \<and>
   scanCallbackFunc 0 (ex_world (MatchRules_callback ex_accessors [])) 1
       CALLBACK_MSG_SCAN_FINISHED 0 7 =
     Inr \<lparr>verdict = CALLBACK_CONTINUE,
          world_after = ex_world (MatchRules_callback ex_accessors []), calls = []\<rparr> \<and>
   asScanCallbackModuleImport ex_no_methods = None \<and>
   scanCallbackFunc 4096 (ex_world ex_no_methods) 1 CALLBACK_MSG_IMPORT_MODULE 2 7 =
     Inr \<lparr>verdict = CALLBACK_CONTINUE, world_after = ex_world ex_no_methods, calls = []\<rparr>"
proof -
  have recorder:
    "callbackData (ex_world (MatchRules_callback ex_accessors [])) 7 =
       Container (makeScanCallbackContainer (MatchRules_callback ex_accessors []))"
    by (simp add: ex_world_def)
  have no_finished: "asScanCallbackFinished (MatchRules_callback ex_accessors []) = None"
    by (simp add: MatchRules_callback_def)
  then have first:
    "(CALLBACK_MSG_SCAN_FINISHED = CALLBACK_MSG_RULE_MATCHING \<and>
        asScanCallbackMatch (ScanCallback
          (makeScanCallbackContainer (MatchRules_callback ex_accessors []))) = None) \<or>
     (CALLBACK_MSG_SCAN_FINISHED = CALLBACK_MSG_RULE_NOT_MATCHING \<and>
        asScanCallbackNoMatch (ScanCallback
          (makeScanCallbackContainer (MatchRules_callback ex_accessors []))) = None) \<or>
     (CALLBACK_MSG_SCAN_FINISHED = CALLBACK_MSG_SCAN_FINISHED \<and>
        asScanCallbackFinished (ScanCallback
          (makeScanCallbackContainer (MatchRules_callback ex_accessors []))) = None) \<or>
     (CALLBACK_MSG_SCAN_FINISHED = CALLBACK_MSG_IMPORT_MODULE \<and>
        asScanCallbackModuleImport (ScanCallback
          (makeScanCallbackContainer (MatchRules_callback ex_accessors []))) = None) \<or>
     (CALLBACK_MSG_SCAN_FINISHED = CALLBACK_MSG_MODULE_IMPORTED \<and>
        asScanCallbackModuleImportFinished (ScanCallback
          (makeScanCallbackContainer (MatchRules_callback ex_accessors []))) = None)"
    by (simp add: makeScanCallbackContainer_def)
  have registered:
    "callbackData (ex_world ex_no_methods) 7 =
       Container (makeScanCallbackContainer ex_no_methods)"
    by (simp add: ex_world_def)
  have no_import: "asScanCallbackModuleImport ex_no_methods = None"
    by (simp add: ex_no_methods_def)
  then have second:
    "(CALLBACK_MSG_IMPORT_MODULE = CALLBACK_MSG_RULE_MATCHING \<and>
        asScanCallbackMatch (ScanCallback (makeScanCallbackContainer ex_no_methods)) = None) \<or>
     (CALLBACK_MSG_IMPORT_MODULE = CALLBACK_MSG_RULE_NOT_MATCHING \<and>
        asScanCallbackNoMatch (ScanCallback (makeScanCallbackContainer ex_no_methods)) = None) \<or>
     (CALLBACK_MSG_IMPORT_MODULE = CALLBACK_MSG_SCAN_FINISHED \<and>
        asScanCallbackFinished (ScanCallback (makeScanCallbackContainer ex_no_methods)) = None) \<or>
     (CALLBACK_MSG_IMPORT_MODULE = CALLBACK_MSG_IMPORT_MODULE \<and>
        asScanCallbackModuleImport (ScanCallback (makeScanCallbackContainer ex_no_methods)) =
          None) \<or>
     (CALLBACK_MSG_IMPORT_MODULE = CALLBACK_MSG_MODULE_IMPORTED \<and>
        asScanCallbackModuleImportFinished
          (ScanCallback (makeScanCallbackContainer ex_no_methods)) = None)"
    by (simp add: makeScanCallbackContainer_def)
  from no_finished no_import
    missing_capability_continues [OF recorder first, of 0 1 0]
    missing_capability_continues [OF registered second, of 4096 1 2]
  show ?thesis by simp
qed

subsection \<open>Events that reach a callback method\<close>

text \<open>
  Wherever the dispatcher returns: for each of the five kinds of event, when the
  callback object has the method for the kind, the method is called and returns
  \<open>(abort, err)\<close>, the dispatcher returns the engine's error code if \<open>err\<close> is not
  nil (whatever \<open>abort\<close> is), else the abort code if \<open>abort\<close> is true, else the
  continue code; the one call in the trace is the call that returned
  \<open>(abort, err)\<close>. On a module-import event the dispatcher returns when the payload
  is empty or \<open>C.calloc\<close> has returned a block.
\<close>

lemma verdict_from_callback_result:
  assumes "callbackData w userData = Container cbc"
    and "(message = CALLBACK_MSG_RULE_MATCHING \<and>
       (\<exists>c st'. asScanCallbackMatch (ScanCallback cbc) = Some c \<and>
          c (ScanContextAt ctx) (RuleAt messageData) (state (ScanCallback cbc)) =
            (st', abort, err))) \<or>
     (message = CALLBACK_MSG_RULE_NOT_MATCHING \<and>
       (\<exists>c st'. asScanCallbackNoMatch (ScanCallback cbc) = Some c \<and>
          c (ScanContextAt ctx) (RuleAt messageData) (state (ScanCallback cbc)) =
            (st', abort, err))) \<or>
     (message = CALLBACK_MSG_SCAN_FINISHED \<and>
       (\<exists>c st'. asScanCallbackFinished (ScanCallback cbc) = Some c \<and>
          c (ScanContextAt ctx) (state (ScanCallback cbc)) = (st', abort, err))) \<or>
     (message = CALLBACK_MSG_IMPORT_MODULE \<and>
       (\<exists>c st' buf. asScanCallbackModuleImport (ScanCallback cbc) = Some c \<and>
          c (ScanContextAt ctx) (mi_module_name (module_imports w messageData))
            (state (ScanCallback cbc)) = (st', buf, abort, err) \<and>
          (buf = [] \<or> cbuf \<noteq> 0))) \<or>
     (message = CALLBACK_MSG_MODULE_IMPORTED \<and>
       (\<exists>c st'. asScanCallbackModuleImportFinished (ScanCallback cbc) = Some c \<and>
          c (ScanContextAt ctx) (ObjectAt messageData) (state (ScanCallback cbc)) =
            (st', abort, err)))"
  shows "\<exists>out. scanCallbackFunc cbuf w ctx message messageData userData = Inr out \<and>
           verdict out = (if err \<noteq> None then CALLBACK_ERROR
                          else if abort then CALLBACK_ABORT else CALLBACK_CONTINUE) \<and>
           map snd (calls out) = [(abort, err)]"
proof -
  from switch_invoked [where s = "ScanContextAt ctx" and mis = "module_imports w" and h = "heap w",
      OF assms(2)]
  obtain r where
    r: "scanCallbackFunc_switch cbuf (ScanContextAt ctx) message messageData cbc (heap w)
          (module_imports w) = Inr r \<and>
        sw_abort r = abort \<and> sw_err r = err \<and> map snd (sw_calls r) = [(abort, err)]" ..
  from assms(1) r have
    "scanCallbackFunc cbuf w ctx message messageData userData =
       Inr \<lparr>verdict = (if sw_err r \<noteq> None then CALLBACK_ERROR
                       else if sw_abort r then CALLBACK_ABORT else CALLBACK_CONTINUE),
            world_after = \<lparr>callbackData = (callbackData w)(userData := Container (sw_cbc r)),
                           heap = sw_heap r, module_imports = sw_module_imports r\<rparr>,
            calls = sw_calls r\<rparr>"
    by (simp add: scanCallbackFunc_def)
  with r show ?thesis
    by simp
qed

text \<open>
  The witness: a rule-matched event answered with \<open>(true, nil)\<close>, a module-import
  event answered with a payload and \<open>(true, error)\<close>, and a scan-finished event
  answered with \<open>(false, nil)\<close>.
\<close>

lemma verdict_from_callback_result_witness:
  "(\<exists>out. scanCallbackFunc 0 (ex_world (ex_callback [] True None)) 1
              CALLBACK_MSG_RULE_MATCHING 2 7 = Inr out \<and>
          verdict out = CALLBACK_ABORT \<and> map snd (calls out) = [(True, None)]) \<and>
   (\<exists>out. scanCallbackFunc 4096 (ex_world (ex_callback [65] True (Some (Error ''e'')))) 1
              CALLBACK_MSG_IMPORT_MODULE 2 7 = Inr out \<and>
          verdict out = CALLBACK_ERROR \<and>
          map snd (calls out) = [(True, Some (Error ''e''))]) \<and>
   (\<exists>out. scanCallbackFunc 0 (ex_world (ex_callback [] False None)) 1
              CALLBACK_MSG_SCAN_FINISHED 0 7 = Inr out \<and>
          verdict out = CALLBACK_CONTINUE \<and> map snd (calls out) = [(False, None)])"
proof -
  have registered: "callbackData (ex_world sc) 7 = Container (makeScanCallbackContainer sc)"
    for sc :: "nat ScanCallback"
    by (simp add: ex_world_def)
  have matching:
    "\<exists>c st'. asScanCallbackMatch
         (ScanCallback (makeScanCallbackContainer (ex_callback [] True None))) = Some c \<and>
       c (ScanContextAt 1) (RuleAt 2)
         (state (ScanCallback (makeScanCallbackContainer (ex_callback [] True None)))) =
         (st', True, None)"
    by (simp add: makeScanCallbackContainer_def ex_callback_def)
  have importing:
    "\<exists>c st' buf. asScanCallbackModuleImport
         (ScanCallback (makeScanCallbackContainer (ex_callback [65] True (Some (Error ''e''))))) =
           Some c \<and>
       c (ScanContextAt 1)
         (mi_module_name (module_imports
            (ex_world (ex_callback [65] True (Some (Error ''e'')))) 2))
         (state (ScanCallback
            (makeScanCallbackContainer (ex_callback [65] True (Some (Error ''e'')))))) =
         (st', buf, True, Some (Error ''e'')) \<and>
       (buf = [] \<or> (4096 :: nat) \<noteq> 0)"
    by (simp add: makeScanCallbackContainer_def ex_callback_def)
  have finished:
    "\<exists>c st'. asScanCallbackFinished
         (ScanCallback (makeScanCallbackContainer (ex_callback [] False None))) = Some c \<and>
       c (ScanContextAt 1)
         (state (ScanCallback (makeScanCallbackContainer (ex_callback [] False None)))) =
         (st', False, None)"
    by (simp add: makeScanCallbackContainer_def ex_callback_def)
  from matching
    verdict_from_callback_result [OF registered [of "ex_callback [] True None"],
      where message = CALLBACK_MSG_RULE_MATCHING
      and ctx = 1 and messageData = 2 and abort = True and err = None and cbuf = 0]
  have first: "\<exists>out. scanCallbackFunc 0 (ex_world (ex_callback [] True None)) 1
              CALLBACK_MSG_RULE_MATCHING 2 7 = Inr out \<and>
          verdict out = CALLBACK_ABORT \<and> map snd (calls out) = [(True, None)]"
    by simp
  from importing
    verdict_from_callback_result [OF registered [of "ex_callback [65] True (Some (Error ''e''))"],
      where message = CALLBACK_MSG_IMPORT_MODULE
      and ctx = 1 and messageData = 2 and abort = True and err = "Some (Error ''e'')"
      and cbuf = 4096]
  have second: "\<exists>out. scanCallbackFunc 4096
              (ex_world (ex_callback [65] True (Some (Error ''e'')))) 1
              CALLBACK_MSG_IMPORT_MODULE 2 7 = Inr out \<and>
          verdict out = CALLBACK_ERROR \<and>
          map snd (calls out) = [(True, Some (Error ''e''))]"
    by simp
  from finished
    verdict_from_callback_result [OF registered [of "ex_callback [] False None"],
      where message = CALLBACK_MSG_SCAN_FINISHED
      and ctx = 1 and messageData = 0 and abort = False and err = None and cbuf = 0]
  have third: "\<exists>out. scanCallbackFunc 0 (ex_world (ex_callback [] False None)) 1
              CALLBACK_MSG_SCAN_FINISHED 0 7 = Inr out \<and>
          verdict out = CALLBACK_CONTINUE \<and> map snd (calls out) = [(False, None)]"
    by simp
  from first second third show ?thesis by simp
qed

text \<open>
  C1. The verdict is not computed from \<open>(abort, err)\<close> on every event whose method
  is called. \<open>ImportModule\<close> is called and returns one byte of payload with
  \<open>(false, nil)\<close>, so the verdict due is the continue code; \<open>C.calloc\<close> returns NULL,
  its result is not checked, and \<open>copy\<close> writes through the null pointer: the
  dispatcher stops there and returns no verdict at all.
\<close>

theorem calloc_null_no_verdict:
  "asScanCallbackModuleImport ex_import_ok =
     Some (\<lambda>s name n. (Suc n, [65], False, None)) \<and>
   ex_import_no_memory_run = Inl NilPointerDereference"
proof -
  have registered:
    "callbackData (ex_world ex_import_ok) 7 = Container (makeScanCallbackContainer ex_import_ok)"
    by (simp add: ex_world_def)
  have has_method:
    "asScanCallbackModuleImport (ScanCallback (makeScanCallbackContainer ex_import_ok)) =
     Some (\<lambda>s name n. (Suc n, [65], False, None))"
    by (simp add: makeScanCallbackContainer_def ex_import_ok_def ex_callback_def)
  have stopped:
    "import_module 0 (ScanContextAt 1) 2 (makeScanCallbackContainer ex_import_ok)
       (heap (ex_world ex_import_ok)) (module_imports (ex_world ex_import_ok))
       (\<lambda>s name n. (Suc n, [65], False, None)) = Inl NilPointerDereference"
    by (rule import_module_fault [where buf = "[65]" and abort = False and err = None]) simp_all
  from registered switch_import [OF has_method] stopped
  have "ex_import_no_memory_run = Inl NilPointerDereference"
    by (simp add: ex_import_no_memory_run_def scanCallbackFunc_def)
  with has_method show ?thesis
    by (simp add: makeScanCallbackContainer_def)
qed

subsection \<open>Module-import events\<close>

text \<open>
  C5. When \<open>ImportModule\<close> returns a payload of length zero (nil or empty), the
  dispatcher allocates nothing (whatever \<open>C.calloc\<close> would have returned, it is not
  called), writes nothing to the engine's structure and tracks nothing; the only
  change in the world is what the method did to its own object. The verdict is the
  uniform one: error code for a non-nil error, else abort code for \<open>abort\<close>, else
  continue code.
\<close>

theorem empty_payload_no_buffer:
  assumes "callbackData w userData = Container cbc"
    and "asScanCallbackModuleImport (ScanCallback cbc) = Some c"
    and "c (ScanContextAt ctx) (mi_module_name (module_imports w messageData))
           (state (ScanCallback cbc)) = (st', [], abort, err)"
  shows "scanCallbackFunc cbuf w ctx CALLBACK_MSG_IMPORT_MODULE messageData userData =
           Inr \<lparr>verdict = (if err \<noteq> None then CALLBACK_ERROR
                           else if abort then CALLBACK_ABORT else CALLBACK_CONTINUE),
                world_after = w\<lparr>callbackData := (callbackData w)(userData :=
                   Container (cbc\<lparr>ScanCallback := (ScanCallback cbc)\<lparr>state := st'\<rparr>\<rparr>))\<rparr>,
                calls = [(Call_ImportModule (ScanContextAt ctx)
                            (mi_module_name (module_imports w messageData)), abort, err)]\<rparr>"
  using assms(1) switch_import [OF assms(2)]
    import_module_empty [where c = c and mis = "module_imports w", OF assms(3)]
  by (simp add: scanCallbackFunc_def)

text \<open>
  The witness is the scenario of the specification: \<open>ImportModule\<close> returns
  \<open>(nil, false, someError)\<close> for the module \<open>net\<close>.
\<close>

theorem empty_payload_no_buffer_witness:
  "\<exists>out. scanCallbackFunc 4096 (ex_world (ex_callback [] False (Some (Error ''e'')))) 1
            CALLBACK_MSG_IMPORT_MODULE 2 7 = Inr out \<and>
      verdict out = CALLBACK_ERROR \<and>
      heap (world_after out) = ex_heap \<and>
      module_imports (world_after out) 2 = ex_module_import \<and>
      tracked_buffers (world_after out) 7 = [] \<and>
      calls out = [(Call_ImportModule (ScanContextAt 1) ''net'', False, Some (Error ''e''))]"
proof -
  have registered:
    "callbackData (ex_world (ex_callback [] False (Some (Error ''e'')))) 7 =
       Container (makeScanCallbackContainer (ex_callback [] False (Some (Error ''e''))))"
    by (simp add: ex_world_def)
  have has_method:
    "asScanCallbackModuleImport
       (ScanCallback (makeScanCallbackContainer (ex_callback [] False (Some (Error ''e''))))) =
     Some (\<lambda>s name n. (Suc n, [], False, Some (Error ''e'')))"
    by (simp add: makeScanCallbackContainer_def ex_callback_def)
  have returned:
    "(\<lambda>s name n. (Suc n, [], False, Some (Error ''e''))) (ScanContextAt 1)
       (mi_module_name (module_imports (ex_world (ex_callback [] False (Some (Error ''e'')))) 2))
       (state (ScanCallback
          (makeScanCallbackContainer (ex_callback [] False (Some (Error ''e'')))))) =
     (Suc 0, [], False, Some (Error ''e''))"
    by (simp add: makeScanCallbackContainer_def ex_callback_def)
  from empty_payload_no_buffer [OF registered has_method returned, of 4096]
  show ?thesis
    by (simp add: ex_world_def ex_module_import_def tracked_buffers_def
        makeScanCallbackContainer_def)
qed

text \<open>
  C4. When \<open>ImportModule\<close> returns a payload \<open>b\<close> with \<open>len(b) > 0\<close> and \<open>C.calloc\<close>
  has returned a block, the dispatcher returns, and afterwards the engine's
  structure holds the address of that block and the length \<open>len(b)\<close>, and the
  block at that address holds exactly the bytes of \<open>b\<close>.
\<close>

theorem payload_reaches_engine:
  assumes "callbackData w userData = Container cbc"
    and "asScanCallbackModuleImport (ScanCallback cbc) = Some c"
    and "c (ScanContextAt ctx) (mi_module_name (module_imports w messageData))
           (state (ScanCallback cbc)) = (st', b, abort, err)"
    and "0 < length b" and "cbuf \<noteq> 0"
  shows "\<exists>out. scanCallbackFunc cbuf w ctx CALLBACK_MSG_IMPORT_MODULE messageData userData =
             Inr out \<and>
           mi_module_data (module_imports (world_after out) messageData) = cbuf \<and>
           mi_module_data_size (module_imports (world_after out) messageData) = length b \<and>
           blocks (heap (world_after out))
             (mi_module_data (module_imports (world_after out) messageData)) = Some b"
proof -
  from assms(4) have "b \<noteq> []" by auto
  from assms(1) switch_import [OF assms(2)]
    import_module_payload [where c = c and mis = "module_imports w", OF assms(3) this assms(5)]
  show ?thesis
    by (simp add: scanCallbackFunc_def)
qed

theorem payload_reaches_engine_witness:
  "\<exists>out. scanCallbackFunc 4096 (ex_world (ex_callback [1, 2, 3] False None)) 1
            CALLBACK_MSG_IMPORT_MODULE 2 7 = Inr out \<and>
      mi_module_data (module_imports (world_after out) 2) = 4096 \<and>
      mi_module_data_size (module_imports (world_after out) 2) = 3 \<and>
      blocks (heap (world_after out)) 4096 = Some [1, 2, 3]"
proof -
  have registered:
    "callbackData (ex_world (ex_callback [1, 2, 3] False None)) 7 =
       Container (makeScanCallbackContainer (ex_callback [1, 2, 3] False None))"
    by (simp add: ex_world_def)
  have has_method:
    "asScanCallbackModuleImport
       (ScanCallback (makeScanCallbackContainer (ex_callback [1, 2, 3] False None))) =
     Some (\<lambda>s name n. (Suc n, [1, 2, 3], False, None))"
    by (simp add: makeScanCallbackContainer_def ex_callback_def)
  have returned:
    "(\<lambda>s name n. (Suc n, [1, 2, 3], False, None)) (ScanContextAt 1)
       (mi_module_name (module_imports (ex_world (ex_callback [1, 2, 3] False None)) 2))
       (state (ScanCallback (makeScanCallbackContainer (ex_callback [1, 2, 3] False None)))) =
     (Suc 0, [1, 2, 3 :: byte], False, None :: error option)"
    by (simp add: makeScanCallbackContainer_def ex_callback_def)
  have payload: "0 < length [1, 2, 3 :: byte]" by simp
  have block: "(4096 :: ptr) \<noteq> 0" by simp
  from payload_reaches_engine [OF registered has_method returned payload block]
  obtain out where
    out: "scanCallbackFunc 4096 (ex_world (ex_callback [1, 2, 3] False None)) 1
            CALLBACK_MSG_IMPORT_MODULE 2 7 = Inr out \<and>
      mi_module_data (module_imports (world_after out) 2) = 4096 \<and>
      mi_module_data_size (module_imports (world_after out) 2) = length [1, 2, 3 :: byte] \<and>
      blocks (heap (world_after out)) (mi_module_data (module_imports (world_after out) 2)) =
        Some [1, 2, 3]" ..
  then have "scanCallbackFunc 4096 (ex_world (ex_callback [1, 2, 3] False None)) 1
            CALLBACK_MSG_IMPORT_MODULE 2 7 = Inr out \<and>
      mi_module_data (module_imports (world_after out) 2) = 4096 \<and>
      mi_module_data_size (module_imports (world_after out) 2) = 3 \<and>
      blocks (heap (world_after out)) 4096 = Some [1, 2, 3]"
    by (elim conjE) simp
  then show ?thesis ..
qed

text \<open>
  C3 as stated fails: \<open>ImportModule\<close> returns one byte of payload together with a
  non-nil error; the dispatcher returns the error code, and yet the buffer has
  been allocated, filled, handed to the engine and tracked.
\<close>

theorem import_error_with_payload_allocates:
  "\<not> isl ex_import_error_run \<and>
   calls (projr ex_import_error_run) =
     [(Call_ImportModule (ScanContextAt 1) ''net'', False, Some (Error ''no such module''))] \<and>
   verdict (projr ex_import_error_run) = CALLBACK_ERROR \<and>
   blocks (heap (world_after (projr ex_import_error_run))) 4096 = Some [65] \<and>
   mi_module_data (module_imports (world_after (projr ex_import_error_run)) 2) = 4096 \<and>
   mi_module_data_size (module_imports (world_after (projr ex_import_error_run)) 2) = 1 \<and>
   tracked_buffers (world_after (projr ex_import_error_run)) 7 = [4096]"
proof -
  have registered:
    "callbackData (ex_world ex_import_error) 7 =
       Container (makeScanCallbackContainer ex_import_error)"
    by (simp add: ex_world_def)
  have has_method:
    "asScanCallbackModuleImport (ScanCallback (makeScanCallbackContainer ex_import_error)) =
     Some (\<lambda>s name n. (Suc n, [65], False, Some (Error ''no such module'')))"
    by (simp add: makeScanCallbackContainer_def ex_import_error_def ex_callback_def)
  have run:
    "import_module 4096 (ScanContextAt 1) 2 (makeScanCallbackContainer ex_import_error)
       (heap (ex_world ex_import_error)) (module_imports (ex_world ex_import_error))
       (\<lambda>s name n. (Suc n, [65], False, Some (Error ''no such module''))) =
     Inr \<lparr>sw_abort = False, sw_err = Some (Error ''no such module''),
          sw_cbc = (makeScanCallbackContainer ex_import_error)
             \<lparr>ScanCallback := (ScanCallback (makeScanCallbackContainer ex_import_error))
                 \<lparr>state := Suc (state (ScanCallback (makeScanCallbackContainer ex_import_error)))\<rparr>,
              cdata := cdata (makeScanCallbackContainer ex_import_error) @ [4096]\<rparr>,
          sw_heap = (heap (ex_world ex_import_error))
             \<lparr>blocks := (blocks (heap (ex_world ex_import_error)))(4096 \<mapsto> [65])\<rparr>,
          sw_module_imports = (module_imports (ex_world ex_import_error))(2 :=
             (module_imports (ex_world ex_import_error) 2)
               \<lparr>mi_module_data := 4096, mi_module_data_size := length [65 :: byte]\<rparr>),
          sw_calls = [(Call_ImportModule (ScanContextAt 1)
             (mi_module_name (module_imports (ex_world ex_import_error) 2)),
             False, Some (Error ''no such module''))]\<rparr>"
    by (rule import_module_payload) simp_all
  from registered switch_import [OF has_method] run
  have outcome: "ex_import_error_run =
     Inr \<lparr>verdict = CALLBACK_ERROR,
          world_after =
            \<lparr>callbackData = (callbackData (ex_world ex_import_error))(7 := Container
               ((makeScanCallbackContainer ex_import_error)
                \<lparr>ScanCallback := (ScanCallback (makeScanCallbackContainer ex_import_error))
                   \<lparr>state := Suc (state (ScanCallback (makeScanCallbackContainer ex_import_error)))\<rparr>,
                 cdata := cdata (makeScanCallbackContainer ex_import_error) @ [4096]\<rparr>)),
             heap = (heap (ex_world ex_import_error))
               \<lparr>blocks := (blocks (heap (ex_world ex_import_error)))(4096 \<mapsto> [65])\<rparr>,
             module_imports = (module_imports (ex_world ex_import_error))(2 :=
               (module_imports (ex_world ex_import_error) 2)
                 \<lparr>mi_module_data := 4096, mi_module_data_size := length [65 :: byte]\<rparr>)\<rparr>,
          calls = [(Call_ImportModule (ScanContextAt 1)
             (mi_module_name (module_imports (ex_world ex_import_error) 2)),
             False, Some (Error ''no such module''))]\<rparr>"
    by (simp add: ex_import_error_run_def scanCallbackFunc_def)
  show ?thesis
    unfolding outcome
    by (simp add: tracked_buffers_def makeScanCallbackContainer_def ex_world_def
        ex_module_import_def)
qed

text \<open>
  C3, amended. On a module-import event whose method is called and on which the
  dispatcher returns to the engine (the payload is empty, or \<open>C.calloc\<close> has
  returned a block), a buffer is allocated, handed to the engine and tracked
  exactly when the payload returned is not empty, whatever error is returned with
  it: with an empty payload the heap, the engine's structure and the tracked
  buffers are as before; with a payload the new block holds it, the engine's
  structure points to it and it is the last tracked buffer. On such an event the
  verdict is the uniform one, so it is the error code whenever \<open>ImportModule\<close>
  returns a non-nil error. The event on which \<open>C.calloc\<close> returns NULL for a
  payload that is not empty is the one of C1, and is left out here.
\<close>

theorem import_buffer_follows_payload:
  assumes "callbackData w userData = Container cbc"
    and "asScanCallbackModuleImport (ScanCallback cbc) = Some c"
    and "c (ScanContextAt ctx) (mi_module_name (module_imports w messageData))
           (state (ScanCallback cbc)) = (st', buf, abort, err)"
    and "buf = [] \<or> cbuf \<noteq> 0"
  shows "\<exists>out. scanCallbackFunc cbuf w ctx CALLBACK_MSG_IMPORT_MODULE messageData userData =
             Inr out \<and>
           (if buf = [] then
              tracked_buffers (world_after out) userData = tracked_buffers w userData \<and>
              heap (world_after out) = heap w \<and>
              module_imports (world_after out) = module_imports w
            else
              tracked_buffers (world_after out) userData = tracked_buffers w userData @ [cbuf] \<and>
              blocks (heap (world_after out)) cbuf = Some buf \<and>
              module_imports (world_after out) messageData =
                (module_imports w messageData)
                  \<lparr>mi_module_data := cbuf, mi_module_data_size := length buf\<rparr>) \<and>
           verdict out = (if err \<noteq> None then CALLBACK_ERROR
                          else if abort then CALLBACK_ABORT else CALLBACK_CONTINUE)"
proof (cases "buf = []")
  case True
  with assms(3) have ret:
    "c (ScanContextAt ctx) (mi_module_name (module_imports w messageData))
       (state (ScanCallback cbc)) = (st', [], abort, err)"
    by simp
  from True assms(1) show ?thesis
    using switch_import [OF assms(2)]
      import_module_empty [where c = c and mis = "module_imports w", OF ret]
    by (simp add: scanCallbackFunc_def tracked_buffers_def)
next
  case False
  with assms(4) have block: "cbuf \<noteq> 0"
    by simp
  from False assms(1) show ?thesis
    using switch_import [OF assms(2)]
      import_module_payload [where c = c and mis = "module_imports w", OF assms(3) False block]
    by (simp add: scanCallbackFunc_def tracked_buffers_def)
qed

text \<open>
  The witness: the event of the counterexample, and the scenario of the
  specification (\<open>ImportModule\<close> returns \<open>(nil, false, someError)\<close>) at a moment
  when \<open>C.calloc\<close> would return NULL.
\<close>

theorem import_buffer_follows_payload_witness:
  "(\<exists>out. scanCallbackFunc 4096 (ex_world ex_import_error) 1 CALLBACK_MSG_IMPORT_MODULE 2 7 =
             Inr out \<and>
           tracked_buffers (world_after out) 7 = [4096] \<and>
           blocks (heap (world_after out)) 4096 = Some [65] \<and>
           module_imports (world_after out) 2 =
             \<lparr>mi_module_name = ''net'', mi_module_data = 4096, mi_module_data_size = 1\<rparr> \<and>
           verdict out = CALLBACK_ERROR) \<and>
   (\<exists>out. scanCallbackFunc 0 (ex_world (ex_callback [] False (Some (Error ''e'')))) 1
             CALLBACK_MSG_IMPORT_MODULE 2 7 = Inr out \<and>
           tracked_buffers (world_after out) 7 = [] \<and>
           heap (world_after out) = ex_heap \<and>
           module_imports (world_after out) 2 = ex_module_import \<and>
           verdict out = CALLBACK_ERROR)"
proof -
  have registered: "callbackData (ex_world sc) 7 = Container (makeScanCallbackContainer sc)"
    for sc :: "nat ScanCallback"
    by (simp add: ex_world_def)
  have has_method:
    "asScanCallbackModuleImport (ScanCallback (makeScanCallbackContainer ex_import_error)) =
     Some (\<lambda>s name n. (Suc n, [65], False, Some (Error ''no such module'')))"
    by (simp add: makeScanCallbackContainer_def ex_import_error_def ex_callback_def)
  have returned:
    "(\<lambda>s name n. (Suc n, [65], False, Some (Error ''no such module''))) (ScanContextAt 1)
       (mi_module_name (module_imports (ex_world ex_import_error) 2))
       (state (ScanCallback (makeScanCallbackContainer ex_import_error))) =
     (Suc 0, [65 :: byte], False, Some (Error ''no such module''))"
    by (simp add: makeScanCallbackContainer_def ex_import_error_def ex_callback_def)
  have block: "[65 :: byte] = [] \<or> (4096 :: ptr) \<noteq> 0" by simp
  from import_buffer_follows_payload
    [where ctx = 1 and messageData = 2,
      OF registered [of ex_import_error] has_method returned block]
  have first:
    "\<exists>out. scanCallbackFunc 4096 (ex_world ex_import_error) 1 CALLBACK_MSG_IMPORT_MODULE 2 7 =
             Inr out \<and>
           tracked_buffers (world_after out) 7 = [4096] \<and>
           blocks (heap (world_after out)) 4096 = Some [65] \<and>
           module_imports (world_after out) 2 =
             \<lparr>mi_module_name = ''net'', mi_module_data = 4096, mi_module_data_size = 1\<rparr> \<and>
           verdict out = CALLBACK_ERROR"
    by (simp add: tracked_buffers_def ex_world_def ex_module_import_def
        makeScanCallbackContainer_def)
  have has_method':
    "asScanCallbackModuleImport
       (ScanCallback (makeScanCallbackContainer (ex_callback [] False (Some (Error ''e''))))) =
     Some (\<lambda>s name n. (Suc n, [], False, Some (Error ''e'')))"
    by (simp add: makeScanCallbackContainer_def ex_callback_def)
  have returned':
    "(\<lambda>s name n. (Suc n, [], False, Some (Error ''e''))) (ScanContextAt 1)
       (mi_module_name (module_imports (ex_world (ex_callback [] False (Some (Error ''e'')))) 2))
       (state (ScanCallback
          (makeScanCallbackContainer (ex_callback [] False (Some (Error ''e'')))))) =
     (Suc 0, [] :: byte list, False, Some (Error ''e''))"
    by (simp add: makeScanCallbackContainer_def ex_callback_def)
  have empty: "([] :: byte list) = [] \<or> (0 :: ptr) \<noteq> 0" by simp
  from import_buffer_follows_payload
    [where ctx = 1 and messageData = 2,
      OF registered [of "ex_callback [] False (Some (Error ''e''))"] has_method' returned' empty]
  have second:
    "\<exists>out. scanCallbackFunc 0 (ex_world (ex_callback [] False (Some (Error ''e'')))) 1
             CALLBACK_MSG_IMPORT_MODULE 2 7 = Inr out \<and>
           tracked_buffers (world_after out) 7 = [] \<and>
           heap (world_after out) = ex_heap \<and>
           module_imports (world_after out) 2 = ex_module_import \<and>
           verdict out = CALLBACK_ERROR"
    by (auto simp add: tracked_buffers_def ex_world_def ex_module_import_def
        makeScanCallbackContainer_def)
  from first second show ?thesis by simp
qed

section \<open>MatchRules\<close>

lemma int_as_int32_idem: "int_as_int32 (int_as_int32 v) = int_as_int32 v"
  by (cases v) simp_all

lemma map_of_convert_step:
  "map_of (case map_of metas s of
             Some (GoInt i) \<Rightarrow> AList.update s (GoInt32 (scast i)) metas
           | _ \<Rightarrow> metas) =
   (map_of metas)(s := map_option int_as_int32 (map_of metas s))"
proof (cases "map_of metas s")
  case None
  then show ?thesis by (simp add: fun_upd_idem)
next
  case (Some v)
  then show ?thesis
    by (cases v) (simp_all add: update_conv' fun_upd_idem)
qed

text \<open>The loop converts the values under the keys it visits and no others.\<close>

lemma map_of_convert_ints:
  "map_of (convert_ints ks metas) s =
     (if s \<in> set ks then map_option int_as_int32 (map_of metas s) else map_of metas s)"
proof (induction ks arbitrary: metas)
  case Nil
  then show ?case by simp
next
  case (Cons k ks)
  show ?case
    by (simp add: Cons.IH map_of_convert_step option.map_comp comp_def int_as_int32_idem
        del: convert_ints.simps(2) add: convert_ints.simps(2) [simplified])
qed

text \<open>\<open>range metas\<close> visits every key of the map.\<close>

lemma map_of_convert_all:
  "map_of (convert_ints (map fst metas) metas) s = map_option int_as_int32 (map_of metas s)"
proof (cases "s \<in> fst ` set metas")
  case True
  then show ?thesis by (simp add: map_of_convert_ints)
next
  case False
  then have "map_of metas s = None" by (simp add: map_of_eq_None_iff)
  with False show ?thesis by (simp add: map_of_convert_ints)
qed

text \<open>
  \<open>int32(i)\<close> stands for the same number as \<open>i\<close> exactly when \<open>i\<close> is in the range
  of \<open>int32\<close>.
\<close>

lemma sint_int32_of_int:
  "sint (scast (i :: 64 word) :: 32 word) = sint i \<longleftrightarrow>
     - (2 ^ 31) \<le> sint i \<and> sint i < 2 ^ 31"
proof -
  have "sint (scast i :: 32 word) = signed_take_bit 31 (sint i)"
    by (simp add: signed_scast_eq)
  then show ?thesis
    by (simp add: signed_take_bit_int_eq_self_iff)
qed

lemma RuleMatching_each_order:
  "map Rule (RuleMatching_each acc sc rs mr) = map Rule mr @ map (r_Identifier acc) rs \<and>
   take (length mr) (RuleMatching_each acc sc rs mr) = mr"
proof (induction rs arbitrary: mr)
  case Nil
  then show ?case by simp
next
  case (Cons r rs)
  have step: "fst (RuleMatching acc sc r mr) =
     mr @ [\<lparr>Rule = r_Identifier acc r, Namespace = r_Namespace acc r,
            Tags = r_Tags acc r,
            Meta = convert_ints (map fst (r_Metas acc r)) (r_Metas acc r),
            Strings = r_getMatchStrings acc r sc\<rparr>]"
    by (simp add: RuleMatching_def Let_def)
  from Cons.IH [of "fst (RuleMatching acc sc r mr)"]
  show ?case
    unfolding RuleMatching_each.simps step
    by (auto simp add: take_Suc_conv_app_nth dest: arg_cong [where f = "take (length mr)"])
qed

text \<open>
  C2 as stated fails: the engine reports the metadata integer 2147483648 for the
  key \<open>size\<close>; the record holds an \<open>int32\<close> that stands for -2147483648.
\<close>

theorem int_metadata_narrowed:
  "map_of (r_Metas ex_accessors (RuleAt 2)) ''size'' = Some (GoInt 2147483648) \<and>
   meta_int (GoInt 2147483648) = Some 2147483648 \<and>
   map_of (Meta ex_record) ''size'' = Some (GoInt32 (- 2147483648)) \<and>
   meta_int (GoInt32 (- 2147483648)) = Some (- 2147483648)"
  by (simp add: ex_record_def RuleMatching_def ex_accessors_def ex_metas_def)

text \<open>
  C2, amended. For every rule-matched event the record's metadata has the keys
  the rule's metadata has; a value of Go type \<open>int\<close> is stored as the \<open>int32\<close> of
  its low 32 bits, which stands for the number the engine reported exactly when
  that number is in the range of \<open>int32\<close>, from \<open>-2^31\<close> up to \<open>2^31 - 1\<close>; a value
  of any other type is stored as it is.
\<close>

theorem stored_meta_is_int32:
  "map_of (Meta (last (fst (RuleMatching acc sc r mr)))) s =
     map_option int_as_int32 (map_of (r_Metas acc r) s) \<and>
   (meta_int (int_as_int32 (GoInt i)) = meta_int (GoInt i) \<longleftrightarrow>
      - (2 ^ 31) \<le> sint i \<and> sint i < 2 ^ 31)"
  by (simp add: RuleMatching_def Let_def map_of_convert_all sint_int32_of_int)

theorem stored_meta_is_int32_witness:
  "map_of (Meta ex_record) ''score'' = Some (GoInt32 80) \<and>
   map_of (Meta ex_record) ''author'' = Some (GoString ''me'') \<and>
   map_of (Meta ex_record) ''absent'' = None \<and>
   meta_int (int_as_int32 (GoInt 80)) = meta_int (GoInt 80)"
proof -
  have range: "- (2 ^ 31) \<le> sint (80 :: 64 word) \<and> sint (80 :: 64 word) < 2 ^ 31"
    by simp
  from range
    stored_meta_is_int32 [of ex_accessors "ScanContextAt 1" "RuleAt 2" "[]" "''score''" 80]
    stored_meta_is_int32 [of ex_accessors "ScanContextAt 1" "RuleAt 2" "[]" "''author''" 80]
    stored_meta_is_int32 [of ex_accessors "ScanContextAt 1" "RuleAt 2" "[]" "''absent''" 80]
  show ?thesis
    unfolding ex_record_def
    by (simp add: ex_accessors_def ex_metas_def)
qed

text \<open>
  C8. One call of \<open>RuleMatching\<close> returns \<open>abort = false\<close> and \<open>err = nil\<close> and leaves
  the \<open>MatchRules\<close> it was called on with exactly one more record, at the end: the
  records that were there are unchanged, and the new one holds the rule's
  identifier, namespace and tags, its metadata (the same keys, the values as C2
  says) and its matched strings. Hence, for rules reported one after the other,
  the records are in the order of the reports.
\<close>

theorem record_appended:
  "(\<exists>rec. RuleMatching acc sc r mr = (mr @ [rec], False, None) \<and>
      Rule rec = r_Identifier acc r \<and>
      Namespace rec = r_Namespace acc r \<and>
      Tags rec = r_Tags acc r \<and>
      map_of (Meta rec) = map_option int_as_int32 \<circ> map_of (r_Metas acc r) \<and>
      Strings rec = r_getMatchStrings acc r sc) \<and>
   map Rule (RuleMatching_each acc sc rs mr) = map Rule mr @ map (r_Identifier acc) rs \<and>
   take (length mr) (RuleMatching_each acc sc rs mr) = mr"
proof -
  have "\<exists>rec. RuleMatching acc sc r mr = (mr @ [rec], False, None) \<and>
      Rule rec = r_Identifier acc r \<and>
      Namespace rec = r_Namespace acc r \<and>
      Tags rec = r_Tags acc r \<and>
      map_of (Meta rec) = map_option int_as_int32 \<circ> map_of (r_Metas acc r) \<and>
      Strings rec = r_getMatchStrings acc r sc"
    by (simp add: RuleMatching_def Let_def map_of_convert_all fun_eq_iff)
  with RuleMatching_each_order [of acc sc rs mr] show ?thesis
    by simp
qed

theorem record_appended_witness:
  "RuleMatching ex_accessors (ScanContextAt 1) (RuleAt 2) [] =
     ([\<lparr>Rule = ''suspicious'', Namespace = ''default'', Tags = [''malware''],
        Meta = [(''score'', GoInt32 80), (''size'', GoInt32 (- 2147483648)),
                (''author'', GoString ''me''), (''live'', GoBool True)],
        Strings = []\<rparr>], False, None) \<and>
   map Rule (RuleMatching_each ex_accessors (ScanContextAt 1) [RuleAt 2, RuleAt 3] []) =
     [''suspicious'', ''suspicious'']"
proof -
  from record_appended [of ex_accessors "ScanContextAt 1" "RuleAt 2" "[]" "[RuleAt 2, RuleAt 3]"]
  have "map Rule (RuleMatching_each ex_accessors (ScanContextAt 1) [RuleAt 2, RuleAt 3] []) =
     [''suspicious'', ''suspicious'']"
    by (simp add: ex_accessors_def)
  then show ?thesis
    by (simp add: RuleMatching_def ex_accessors_def ex_metas_def)
qed

text \<open>
  Through the dispatcher: a rule-matched event for a container that holds a
  \<open>MatchRules\<close> gets the continue code, and the \<open>MatchRules\<close> is what \<open>RuleMatching\<close>
  made of it.
\<close>

lemma rule_matched_event_recorded:
  assumes "callbackData w userData = Container cbc"
    and "ScanCallback cbc = MatchRules_callback acc mr"
  shows "\<exists>out. scanCallbackFunc cbuf w ctx CALLBACK_MSG_RULE_MATCHING messageData userData =
             Inr out \<and>
           verdict out = CALLBACK_CONTINUE \<and>
           callbackData (world_after out) userData =
             Container (cbc\<lparr>ScanCallback := MatchRules_callback acc
               (fst (RuleMatching acc (ScanContextAt ctx) (RuleAt messageData) mr))\<rparr>)"
proof -
  from assms(2) have has_method: "asScanCallbackMatch (ScanCallback cbc) = Some (RuleMatching acc)"
    by (simp add: MatchRules_callback_def)
  from assms switch_rule_matching [OF has_method] show ?thesis
    by (simp add: scanCallbackFunc_def after_call_def RuleMatching_def Let_def
        MatchRules_callback_def)
qed

section \<open>Releasing the buffers\<close>

lemma free_each_freed: "freed (free_each ps h) = freed h @ ps"
  by (induction ps arbitrary: h) (simp_all add: C_free_def)

lemma free_each_blocks_at:
  "blocks (free_each ps h) a = (if a \<in> set ps then None else blocks h a)"
  by (induction ps arbitrary: h) (simp_all add: C_free_def)

lemma free_each_blocks: "blocks (free_each ps h) = blocks h |` (- set ps)"
  by (simp add: fun_eq_iff free_each_blocks_at restrict_map_def)

text \<open>
  C9. \<open>finalize\<close> calls \<open>C.free\<close> on the tracked pointers, each once and in the
  order in which \<open>addCPointer\<close> recorded them, and on nothing else; afterwards the
  container tracks nothing and the blocks are gone from the heap. Running it again
  changes neither the container nor the heap, so it frees nothing.
\<close>

theorem finalize_frees_once:
  "\<exists>c' h'. finalize c h = (c', h') \<and>
      cdata c' = [] \<and>
      freed h' = freed h @ cdata c \<and>
      blocks h' = blocks h |` (- set (cdata c)) \<and>
      finalize c' h' = (c', h') \<and>
      cdata (addCPointer p c) = cdata c @ [p]"
  by (simp add: finalize_def free_each_freed free_each_blocks addCPointer_def)

theorem finalize_frees_once_witness:
  "cdata ex_container = [4096, 8192] \<and>
   freed (snd (finalize ex_container ex_live_heap)) = [4096, 8192] \<and>
   cdata (fst (finalize ex_container ex_live_heap)) = [] \<and>
   blocks (snd (finalize ex_container ex_live_heap)) 4096 = None \<and>
   blocks (snd (finalize ex_container ex_live_heap)) 8192 = None \<and>
   freed (snd (finalize (fst (finalize ex_container ex_live_heap))
                        (snd (finalize ex_container ex_live_heap)))) = [4096, 8192]"
proof -
  have tracked: "cdata ex_container = [4096, 8192]"
    by (simp add: ex_container_def addCPointer_def makeScanCallbackContainer_def)
  from finalize_frees_once [of ex_container ex_live_heap 0]
  obtain c' h' where
    run: "finalize ex_container ex_live_heap = (c', h') \<and>
      cdata c' = [] \<and>
      freed h' = freed ex_live_heap @ cdata ex_container \<and>
      blocks h' = blocks ex_live_heap |` (- set (cdata ex_container)) \<and>
      finalize c' h' = (c', h') \<and>
      cdata (addCPointer 0 ex_container) = cdata ex_container @ [0]"
    by (elim exE)
  then show ?thesis
    by (elim conjE) (simp add: tracked ex_live_heap_def)
qed

end
